theory Spec2Isabelle
  imports Main "HOL-Library.Word" "HOL-Library.Sublist"
begin

section \<open>Strings of the host language\<close>

text \<open>
  A JavaScript string is a sequence of 16-bit code units; \<open>length\<close> counts code units
  and \<open>includes\<close> looks for a contiguous run of code units. Literals of the source are
  ASCII and are written through \<open>ascii\<close>.
\<close>

type_synonym js_string = "16 word list"

definition ascii :: "string \<Rightarrow> js_string" where
  "ascii s = map (\<lambda>c. of_nat (of_char c)) s"

definition js_includes :: "js_string \<Rightarrow> js_string \<Rightarrow> bool" where
  \<comment> \<open>\<open>s.includes(b)\<close>: \<open>b\<close> occurs in \<open>s\<close> as a contiguous substring.\<close>
  "js_includes s b = sublist b s"

section \<open>Type definitions (src/types/index.ts)\<close>

datatype Language = Python | Bash

record ExecutionRequest =
  language :: Language
  code :: js_string
  timeout :: "int option"
  workingDir :: "js_string option"

text \<open>
  \<open>ExecutionResult\<close> without its \<open>executionTime\<close> is what \<open>executeProcess\<close> resolves
  to (\<open>Omit<ExecutionResult, 'executionTime'>\<close>); \<open>execute\<close> adds the field.
\<close>

record ProcessResult =
  success :: bool
  stdout :: js_string
  stderr :: js_string
  exitCode :: int
  error :: "js_string option"

record ExecutionResult = ProcessResult +
  executionTime :: int

record ExecutorConfig =
  maxTimeout :: int
  maxMemoryMB :: int
  allowedCommands :: "js_string list option"
  blockedCommands :: "js_string list option"

definition DEFAULT_CONFIG :: ExecutorConfig where
  "DEFAULT_CONFIG =
     \<lparr> maxTimeout = 30000,
       maxMemoryMB = 512,
       allowedCommands = None,
       blockedCommands = Some
         [ ascii ''rm -rf'',
           ascii ''dd'',
           ascii ''mkfs'',
           ascii ''format'',
           ascii '':(){:|:&};:'',
           ascii ''sudo'',
           ascii ''su'' ] \<rparr>"

section \<open>The executor (src/executor/python-executor.ts)\<close>

definition config :: ExecutorConfig where
  \<comment> \<open>\<open>private config = DEFAULT_CONFIG\<close>\<close>
  "config = DEFAULT_CONFIG"

subsection \<open>validateCode\<close>

text \<open>
  A thrown \<open>Error\<close> is modelled by its message, \<open>Inl message\<close>; the only use the
  executor makes of a caught error is \<open>error.message\<close>.
\<close>

definition blocked_list :: "js_string list" where
  \<comment> \<open>\<open>this.config.blockedCommands || []\<close>\<close>
  "blocked_list = (case blockedCommands config of None \<Rightarrow> [] | Some bs \<Rightarrow> bs)"

definition security_violation :: "js_string \<Rightarrow> js_string" where
  "security_violation blocked =
     ascii ''Security violation: Blocked command detected: '' @ blocked"

fun scan_blocked :: "js_string \<Rightarrow> js_string list \<Rightarrow> js_string + unit" where
  \<comment> \<open>the \<open>for (const blocked of ...)\<close> loop: the first blocked command found throws\<close>
  "scan_blocked src [] = Inr ()"
| "scan_blocked src (blocked # rest) =
     (if js_includes src blocked
      then Inl (security_violation blocked)
      else scan_blocked src rest)"

definition code_too_large :: js_string where
  "code_too_large = ascii ''Code too large: Maximum 100KB allowed''"

definition validateCode :: "js_string \<Rightarrow> js_string + unit" where
  "validateCode src =
     (case scan_blocked src blocked_list of
        Inl e \<Rightarrow> Inl e
      | Inr _ \<Rightarrow> if length src > 100000 then Inl code_too_large else Inr ())"

subsection \<open>The effective timeout\<close>

definition js_or :: "int option \<Rightarrow> int \<Rightarrow> int" where
  \<comment> \<open>\<open>a || b\<close> on an optional integer: \<open>undefined\<close> and \<open>0\<close> are falsy, every other
      integer (negative ones too) is truthy.\<close>
  "js_or a b = (case a of None \<Rightarrow> b | Some x \<Rightarrow> if x = 0 then b else x)"

definition effective_timeout :: "ExecutionRequest \<Rightarrow> int" where
  \<comment> \<open>\<open>Math.min(request.timeout || this.config.maxTimeout, this.config.maxTimeout)\<close>\<close>
  "effective_timeout request =
     min (js_or (timeout request) (maxTimeout config)) (maxTimeout config)"

subsection \<open>executeProcess: the callbacks and the runtime's child process\<close>

datatype signal = SIGTERM | SIGKILL

text \<open>
  What the runtime delivers to one invocation, in the order it delivers it:
  data on either pipe, the expiry of the executor's own two timers, the expiry of the
  timer the runtime itself arms for the \<open>timeout\<close> option given to \<open>spawn\<close>, the exit of
  the subprocess (the runtime then drops its handle), and the \<open>close\<close> and \<open>error\<close>
  events. \<open>Close None\<close> is \<open>close\<close> with code \<open>null\<close> (the subprocess died of a signal).
\<close>

datatype event =
    StdoutData js_string
  | StderrData js_string
  | TimerFires
  | GraceFires
  | SpawnTimeoutFires
  | Exit
  | Close "int option"
  | ErrorEvent js_string

text \<open>
  The variables the callbacks close over (\<open>stdout\<close>, \<open>stderr\<close>, \<open>killed\<close>, the two timers,
  the promise) and the state of the runtime's \<open>ChildProcess\<close> object \<open>proc\<close>:
  \<open>proc_killed\<close> is \<open>proc.killed\<close>, \<open>proc_running\<close> says that the subprocess has not
  exited, \<open>kill_log\<close> records every call of \<open>proc.kill\<close> with whether the signal was
  delivered.
\<close>

record closure =
  var_stdout :: js_string
  var_stderr :: js_string
  var_killed :: bool
  timer_armed :: bool
  timer_delay :: int
  grace_armed :: bool
  resolved :: "ProcessResult option"
  proc_killed :: bool
  proc_running :: bool
  spawn_timer_armed :: bool
  kill_log :: "(signal \<times> bool) list"

definition proc_kill :: "signal \<Rightarrow> closure \<Rightarrow> closure" where
  \<comment> \<open>\<open>proc.kill(sig)\<close> of the runtime: the signal is sent when the subprocess has not
      exited, and \<open>proc.killed\<close> becomes true once a signal was sent; it says nothing
      about the subprocess having terminated. On an exited subprocess the call returns
      false and leaves \<open>proc.killed\<close> as it was. Without an argument the signal is
      SIGTERM.\<close>
  "proc_kill sig s =
     (if proc_running s
      then s\<lparr> proc_killed := True, kill_log := kill_log s @ [(sig, True)] \<rparr>
      else s\<lparr> kill_log := kill_log s @ [(sig, False)] \<rparr>)"

definition resolve :: "ProcessResult \<Rightarrow> closure \<Rightarrow> closure" where
  \<comment> \<open>a promise settles once; later calls of \<open>resolve\<close> have no effect\<close>
  "resolve r s = (case resolved s of None \<Rightarrow> s\<lparr> resolved := Some r \<rparr> | Some _ \<Rightarrow> s)"

definition limit_message :: js_string where
  "limit_message = ascii ''Execution timeout or output limit exceeded''"

definition newline :: js_string where
  "newline = [10]"

text \<open>
  One equation for each callback of the source: data on \<open>stdout\<close> (lines 97 to 104) and
  on \<open>stderr\<close> (lines 107 to 113), the timeout timer (lines 116 to 126) and the timer of
  the grace window that it starts (lines 120 to 124), \<open>close\<close> (lines 129 to 148) and
  \<open>error\<close> (lines 151 to 160). A timer runs its callback once, and only while it is
  armed; \<open>clearTimeout(timer)\<close> disarms the timeout timer, nothing disarms the inner one.
  Two equations are the runtime's: for the \<open>timeout\<close> option of \<open>spawn\<close> (line 93) it
  calls \<open>proc.kill\<close> with SIGTERM when its own timer expires, and it disarms that timer
  when the subprocess exits.
\<close>

fun handle :: "closure \<Rightarrow> event \<Rightarrow> closure" where
  "handle s (StdoutData d) =
     (let s1 = s\<lparr> var_stdout := var_stdout s @ d \<rparr>
      in if length (var_stdout s1) > 1000000
         then (proc_kill SIGTERM s1)\<lparr> var_killed := True \<rparr>
         else s1)"
| "handle s (StderrData d) =
     (let s1 = s\<lparr> var_stderr := var_stderr s @ d \<rparr>
      in if length (var_stderr s1) > 1000000
         then (proc_kill SIGTERM s1)\<lparr> var_killed := True \<rparr>
         else s1)"
| "handle s TimerFires =
     (if timer_armed s
      then (let s1 = s\<lparr> timer_armed := False \<rparr>
            in if \<not> proc_killed s1
               then (proc_kill SIGTERM s1)\<lparr> var_killed := True, grace_armed := True \<rparr>
               else s1)
      else s)"
| "handle s GraceFires =
     (if grace_armed s
      then (let s1 = s\<lparr> grace_armed := False \<rparr>
            in if \<not> proc_killed s1 then proc_kill SIGKILL s1 else s1)
      else s)"
| "handle s SpawnTimeoutFires =
     (if spawn_timer_armed s
      then proc_kill SIGTERM (s\<lparr> spawn_timer_armed := False \<rparr>)
      else s)"
| "handle s Exit = s\<lparr> proc_running := False, spawn_timer_armed := False \<rparr>"
| "handle s (Close c) =
     (let s1 = s\<lparr> timer_armed := False, proc_running := False, spawn_timer_armed := False \<rparr>
      in if var_killed s1
         then resolve \<lparr> success = False,
                        stdout = var_stdout s1,
                        stderr = var_stderr s1 @ newline @ limit_message,
                        exitCode = -1,
                        error = Some limit_message \<rparr> s1
         else resolve \<lparr> success = (c = Some 0),
                        stdout = var_stdout s1,
                        stderr = var_stderr s1,
                        exitCode = (case c of None \<Rightarrow> 0 | Some n \<Rightarrow> n),
                        error = None \<rparr> s1)"
| "handle s (ErrorEvent m) =
     (let s1 = s\<lparr> timer_armed := False \<rparr>
      in resolve \<lparr> success = False,
                   stdout = var_stdout s1,
                   stderr = var_stderr s1 @ newline @ m,
                   exitCode = -1,
                   error = Some m \<rparr> s1)"

definition spawned :: "int \<Rightarrow> closure" where
  \<comment> \<open>the state right after the promise's executor has run: empty accumulators, the
      subprocess running, the executor's timer armed with \<open>timeout\<close>, and the runtime's
      own timer armed for the \<open>timeout\<close> option of \<open>spawn\<close> (the runtime arms it for a
      positive value only)\<close>
  "spawned t =
     \<lparr> var_stdout = [], var_stderr = [], var_killed = False,
       timer_armed = True, timer_delay = t, grace_armed = False,
       resolved = None,
       proc_killed = False, proc_running = True, spawn_timer_armed = (0 < t),
       kill_log = [] \<rparr>"

definition run_events :: "int \<Rightarrow> event list \<Rightarrow> closure" where
  "run_events t evs = foldl handle (spawned t) evs"

datatype 'a promise = Fulfilled 'a | Rejected js_string | Pending

definition executeProcess ::
  "js_string \<Rightarrow> int \<Rightarrow> js_string \<Rightarrow> js_string option \<Rightarrow> event list \<Rightarrow> ProcessResult promise" where
  \<comment> \<open>\<open>spawn_throws\<close>: \<open>spawn\<close> threw synchronously inside the promise's executor, which
      rejects the promise. Otherwise the promise is what the callbacks resolved it to over
      the whole history of events, and stays pending when none of them ever resolved it.\<close>
  "executeProcess scriptPath t cwd spawn_throws evs =
     (case spawn_throws of
        Some m \<Rightarrow> Rejected m
      | None \<Rightarrow> (case resolved (run_events t evs) of
                   None \<Rightarrow> Pending
                 | Some r \<Rightarrow> Fulfilled r))"

subsection \<open>execute\<close>

text \<open>
  The world outside the executor: the two clock readings, what \<open>fs.mkdtemp\<close>,
  \<open>fs.writeFile\<close> and \<open>fs.rm\<close> do (\<open>Inl\<close>/\<open>Some\<close>: they reject with this message), whether
  \<open>spawn\<close> throws, and the events of the subprocess. The file system is the set of
  scope directories that exist.
\<close>

record env =
  clock_start :: int
  clock_end :: int
  mkdtemp_outcome :: "js_string + js_string"
  writeFile_outcome :: "js_string option"
  spawn_outcome :: "js_string option"
  events :: "event list"
  rm_outcome :: "js_string option"

definition caught :: "js_string \<Rightarrow> int \<Rightarrow> ExecutionResult" where
  \<comment> \<open>the result built by the \<open>catch\<close> block\<close>
  "caught m t =
     \<lparr> success = False, stdout = [], stderr = m, exitCode = -1, error = Some m,
       executionTime = t \<rparr>"

definition with_time :: "ProcessResult \<Rightarrow> int \<Rightarrow> ExecutionResult" where
  \<comment> \<open>\<open>{ ...result, executionTime: t }\<close>\<close>
  "with_time r t =
     \<lparr> success = success r, stdout = stdout r, stderr = stderr r, exitCode = exitCode r,
       error = error r, executionTime = t \<rparr>"

definition path_join :: "js_string \<Rightarrow> js_string \<Rightarrow> js_string" where
  "path_join d f = d @ ascii ''/'' @ f"

definition execute ::
  "ExecutionRequest \<Rightarrow> env \<Rightarrow> js_string set \<Rightarrow> ExecutionResult promise \<times> js_string set" where
  "execute request w fs =
     (let startTime = clock_start w;
          t = effective_timeout request;
          elapsed = clock_end w - startTime
      in case validateCode (code request) of
           Inl e \<Rightarrow> (Fulfilled (caught e elapsed), fs)
         | Inr _ \<Rightarrow>
           (case mkdtemp_outcome w of
              Inl e \<Rightarrow> (Fulfilled (caught e elapsed), fs)
            | Inr tmpDir \<Rightarrow>
              (let fs1 = insert tmpDir fs;
                   scriptPath = path_join tmpDir (ascii ''script.py'')
               in case writeFile_outcome w of
                    Some e \<Rightarrow> (Fulfilled (caught e elapsed), fs1)
                  | None \<Rightarrow>
                    (case executeProcess scriptPath t tmpDir (spawn_outcome w) (events w) of
                       Rejected e \<Rightarrow> (Fulfilled (caught e elapsed), fs1)
                     | Pending \<Rightarrow> (Pending, fs1)
                     | Fulfilled result \<Rightarrow>
                       (case rm_outcome w of
                          Some e \<Rightarrow> (Fulfilled (caught e elapsed), fs1)
                        | None \<Rightarrow> (Fulfilled (with_time result elapsed), fs1 - {tmpDir}))))))"

section \<open>Concrete requests and worlds\<close>

definition request_of :: "js_string \<Rightarrow> int option \<Rightarrow> ExecutionRequest" where
  "request_of src t = \<lparr> language = Python, code = src, timeout = t, workingDir = None \<rparr>"

definition scope :: js_string where
  "scope = ascii ''/tmp/mcp-exec-Ab12Cd''"

definition world :: "event list \<Rightarrow> env" where
  \<comment> \<open>a run in which the file system calls succeed and \<open>spawn\<close> does not throw\<close>
  "world evs =
     \<lparr> clock_start = 1000, clock_end = 1250,
       mkdtemp_outcome = Inr scope,
       writeFile_outcome = None,
       spawn_outcome = None,
       events = evs,
       rm_outcome = None \<rparr>"

subsection \<open>The output of a subprocess that is left alone\<close>

fun stdout_of :: "event list \<Rightarrow> js_string" where
  "stdout_of [] = []"
| "stdout_of (StdoutData d # evs) = d @ stdout_of evs"
| "stdout_of (_ # evs) = stdout_of evs"

fun stderr_of :: "event list \<Rightarrow> js_string" where
  "stderr_of [] = []"
| "stderr_of (StderrData d # evs) = d @ stderr_of evs"
| "stderr_of (_ # evs) = stderr_of evs"

fun output_or_exit :: "event \<Rightarrow> bool" where
  "output_or_exit (StdoutData _) = True"
| "output_or_exit (StderrData _) = True"
| "output_or_exit Exit = True"
| "output_or_exit _ = False"

definition on_its_own :: "event list \<Rightarrow> bool" where
  \<comment> \<open>before \<open>close\<close> nothing but output and the exit happened (no timer fired, no
      \<open>error\<close> event), and neither stream went over the cap\<close>
  "on_its_own pre =
     (list_all output_or_exit pre \<and>
      length (stdout_of pre) \<le> 1000000 \<and> length (stderr_of pre) \<le> 1000000)"

fun terminal :: "event \<Rightarrow> bool" where
  "terminal (Close _) = True"
| "terminal (ErrorEvent _) = True"
| "terminal _ = False"

subsection \<open>Scripts\<close>

definition sleeping_script :: js_string where
  "sleeping_script = ascii ''import time; time.sleep(60)''"

definition stubborn_script :: js_string where
  \<comment> \<open>a script that ignores the termination signal and never exits\<close>
  "stubborn_script =
     ascii ''import signal, time'' @ newline @
     ascii ''signal.signal(signal.SIGTERM, signal.SIG_IGN)'' @ newline @
     ascii ''while 1: time.sleep(1)''"

definition locking_script :: js_string where
  \<comment> \<open>a script that leaves a read-only directory with a file in its working
      directory, prints \<open>1\<close> and exits with 0\<close>
  "locking_script =
     ascii ''import os; os.mkdir('x'); open('x/y', 'w').close(); os.chmod('x', 0o500); print(1)''"

definition exit7_script :: js_string where
  \<comment> \<open>the same, exiting with 7\<close>
  "exit7_script =
     ascii ''import os, sys; os.mkdir('x'); open('x/y', 'w').close(); os.chmod('x', 0o500); sys.exit(7)''"

definition disk_full :: js_string where
  "disk_full = ascii ''ENOSPC: no space left on device, write''"

definition permission_denied :: js_string where
  "permission_denied = ascii ''EACCES: permission denied, unlink''"

subsection \<open>Results of two runs\<close>

definition printed_one :: ExecutionResult where
  "printed_one =
     \<lparr> success = True, stdout = ascii ''1'' @ newline, stderr = [], exitCode = 0,
       error = None, executionTime = 250 \<rparr>"

definition forced_result :: ExecutionResult where
  "forced_result =
     \<lparr> success = False, stdout = [], stderr = newline @ limit_message, exitCode = - 1,
       error = Some limit_message, executionTime = 250 \<rparr>"

subsection \<open>Runs that end with an error text\<close>










section \<open>Invariants used in the proofs\<close>

definition well_formed :: "ProcessResult \<Rightarrow> bool" where
  "well_formed r =
     ((if success r then exitCode r = 0 \<and> error r = None else True) \<and>
      (case error r of None \<Rightarrow> True | Some m \<Rightarrow> js_includes (stderr r) m))"

definition grace_invariant :: "closure \<Rightarrow> bool" where
  \<comment> \<open>while the inner timer is armed, the graceful signal was delivered or the
      subprocess has exited; no SIGKILL was ever delivered\<close>
  "grace_invariant s =
     ((if grace_armed s then proc_killed s \<or> \<not> proc_running s else True) \<and>
      (SIGKILL, True) \<notin> set (kill_log s))"

section \<open>Validation\<close>

lemma length_ascii [simp]: "length (ascii s) = length s"
  by (simp add: ascii_def)

lemma length_newline [simp]: "length newline = 1"
  by (simp add: newline_def)

lemma ascii_replicate: "ascii (replicate n c) = replicate n (of_nat (of_char c))"
  by (simp add: ascii_def)

lemma not_includes: "\<not> set b \<subseteq> set src \<Longrightarrow> \<not> js_includes src b"
  using set_mono_sublist by (auto simp: js_includes_def)

lemma includes_tail: "js_includes (a @ b @ m) m"
  unfolding js_includes_def sublist_def
  by (rule exI [of _ "a @ b"], rule exI [of _ "[]"]) simp

lemma includes_replicate2: "2 \<le> n \<Longrightarrow> js_includes (replicate n x) [x, x]"
proof -
  assume "2 \<le> n"
  then obtain k where "n = 2 + k" using le_Suc_ex by blast
  then have "replicate n x = [x, x] @ replicate k x"
    by (simp add: numeral_2_eq_2)
  then show ?thesis
    by (simp add: js_includes_def del: replicate.simps)
qed

lemma blocked_list_eq:
  "blocked_list = [ascii ''rm -rf'', ascii ''dd'', ascii ''mkfs'', ascii ''format'',
     ascii '':(){:|:&};:'', ascii ''sudo'', ascii ''su'']"
  by (simp add: blocked_list_def config_def DEFAULT_CONFIG_def)

lemma scan_blocked_pass:
  "list_all (\<lambda>b. \<not> set b \<subseteq> set src) bs \<Longrightarrow> scan_blocked src bs = Inr ()"
  by (induction bs) (auto simp: not_includes)

lemma scan_blocked_find:
  "scan_blocked src bs =
     (case find (js_includes src) bs of
        None \<Rightarrow> Inr ()
      | Some b \<Rightarrow> Inl (security_violation b))"
  by (induction bs) simp_all

lemma validate_pass:
  assumes "length src \<le> 100000" and "list_all (\<lambda>b. \<not> set b \<subseteq> set src) blocked_list"
  shows "validateCode src = Inr ()"
  using assms by (simp add: validateCode_def scan_blocked_pass)

lemma validate_print: "validateCode (ascii ''print(1)'') = Inr ()"
  by (rule validate_pass) (simp_all add: blocked_list_eq ascii_def)

lemma validate_sleeping: "validateCode sleeping_script = Inr ()"
  by (rule validate_pass) (simp_all add: blocked_list_eq sleeping_script_def ascii_def)

lemma validate_stubborn: "validateCode stubborn_script = Inr ()"
  by (rule validate_pass)
     (simp_all add: blocked_list_eq stubborn_script_def ascii_def newline_def)

lemma includes_Nil: "js_includes [] b = (b = [])"
  by (simp add: js_includes_def)

lemma includes_Cons: "js_includes (c # cs) b = (prefix b (c # cs) \<or> js_includes cs b)"
  by (simp add: js_includes_def sublist_Cons_right)

lemma validate_locking: "validateCode locking_script = Inr ()"
  by (simp add: validateCode_def blocked_list_eq locking_script_def ascii_def
        includes_Nil includes_Cons)

lemma validate_exit7: "validateCode exit7_script = Inr ()"
  by (simp add: validateCode_def blocked_list_eq exit7_script_def ascii_def
        includes_Nil includes_Cons)



text \<open>
  C4. The claim says that a text of more than 100,000 characters is rejected for its
  size before the denylist is looked at. The source scans the denylist first and
  checks the length afterwards: the text made of 100,001 letters \<open>d\<close> contains the
  blocked command \<open>dd\<close> and is rejected as a security violation, not for its size.
\<close>

theorem C4_counterexample:
  "length (ascii (replicate 100001 CHR ''d'')) > 100000 \<and>
   validateCode (ascii (replicate 100001 CHR ''d'')) = Inl (security_violation (ascii ''dd'')) \<and>
   validateCode (ascii (replicate 100001 CHR ''d'')) \<noteq> Inl code_too_large"
proof -
  let ?big = "ascii (replicate 100001 CHR ''d'')"
  have big: "?big = replicate 100001 100" by (simp add: ascii_replicate)
  have s: "set ?big = {100}" by (simp add: big)
  have no: "\<not> js_includes ?big (ascii ''rm -rf'')"
    by (rule not_includes) (simp add: s, simp add: ascii_def)
  have yes: "js_includes ?big (ascii ''dd'')"
    using includes_replicate2 [of 100001 100] by (simp add: big ascii_def)
  have "scan_blocked ?big blocked_list = Inl (security_violation (ascii ''dd''))"
    using no yes by (simp add: blocked_list_eq)
  then have v: "validateCode ?big = Inl (security_violation (ascii ''dd''))"
    by (simp add: validateCode_def)
  have "security_violation (ascii ''dd'') \<noteq> code_too_large"
    by (simp add: security_violation_def code_too_large_def ascii_def)
  with v show ?thesis by simp
qed

text \<open>
  C4, as the source has it. Every text of more than 100,000 characters is rejected.
  The denylist is scanned first, in its order: when the text contains a blocked
  command, the rejection is the security violation naming the first one it contains;
  the rejection is the oversize one exactly when the text contains no blocked command.
\<close>

theorem C4_oversize_rejected:
  assumes "length src > 100000"
  shows "validateCode src =
           (case find (js_includes src) blocked_list of
              Some b \<Rightarrow> Inl (security_violation b)
            | None \<Rightarrow> Inl code_too_large)"
  using assms by (simp add: validateCode_def scan_blocked_find split: option.splits)

theorem C4_oversize_rejected_witness:
  "length (ascii (replicate 100001 CHR ''a'')) > 100000 \<and>
   validateCode (ascii (replicate 100001 CHR ''a'')) = Inl code_too_large"
proof -
  let ?big = "ascii (replicate 100001 CHR ''a'')"
  have len: "length ?big > 100000" by simp
  have s: "set ?big = {97}" by (simp add: ascii_replicate)
  have "find (js_includes ?big) blocked_list = None"
    unfolding blocked_list_eq find_None_iff
    by (auto dest!: set_mono_sublist simp: js_includes_def s ascii_def)
  with C4_oversize_rejected [OF len] show ?thesis using len by simp
qed

section \<open>The effective timeout\<close>

text \<open>
  C5. The claim says that a requested timeout of zero or less is replaced by the
  system default, so that the wait is never zero or negative. The source replaces
  only an absent or zero timeout (\<open>||\<close> tests for a falsy value); a negative one is
  truthy and goes through \<open>Math.min\<close> unchanged: for a request of \<open>-5\<close> the value
  handed to \<open>spawn\<close> and to the timer is \<open>-5\<close>.
\<close>

theorem C5_counterexample:
  "effective_timeout (request_of (ascii ''print(1)'') (Some (- 5))) = - 5 \<and>
   effective_timeout (request_of (ascii ''print(1)'') (Some (- 5))) \<noteq> maxTimeout config \<and>
   \<not> 0 < effective_timeout (request_of (ascii ''print(1)'') (Some (- 5)))"
  by (simp add: effective_timeout_def request_of_def js_or_def config_def DEFAULT_CONFIG_def)

text \<open>
  C5, as the source has it. The effective timeout is 30000 when the request has no
  timeout or the timeout 0, and the smaller of the requested value and 30000 for
  every other request: a value above the maximum is clamped without any rejection, and
  a negative value is passed on as it is. Whenever the request has no timeout or a
  timeout that is not negative, the effective timeout lies between 1 and 30000.
\<close>

theorem C5_effective_timeout:
  "effective_timeout request =
     (case timeout request of
        None \<Rightarrow> 30000
      | Some t \<Rightarrow> if t = 0 then 30000 else min t 30000) \<and>
   ((case timeout request of None \<Rightarrow> True | Some t \<Rightarrow> 0 \<le> t) \<longrightarrow>
      0 < effective_timeout request \<and> effective_timeout request \<le> 30000)"
  by (auto simp: effective_timeout_def js_or_def config_def DEFAULT_CONFIG_def
           split: option.splits)

theorem C5_effective_timeout_witness:
  "effective_timeout (request_of (ascii ''print(1)'') (Some 45000)) = 30000 \<and>
   0 < effective_timeout (request_of (ascii ''print(1)'') (Some 45000))"
  using C5_effective_timeout [of "request_of (ascii ''print(1)'') (Some 45000)"]
  by (simp add: request_of_def)

section \<open>The callbacks\<close>

lemma resolved_proc_kill [simp]: "resolved (proc_kill sig s) = resolved s"
  by (simp add: proc_kill_def)

lemma resolved_handle:
  "resolved s = Some r \<Longrightarrow> resolved (handle s e) = Some r"
  by (cases e) (simp_all add: Let_def resolve_def)

lemma resolved_foldl:
  "resolved s = Some r \<Longrightarrow> resolved (foldl handle s evs) = Some r"
  by (induction evs arbitrary: s) (simp_all add: resolved_handle)

lemma resolved_kept: "resolved s \<noteq> None \<Longrightarrow> resolved (foldl handle s evs) \<noteq> None"
  using resolved_foldl by fastforce

lemma well_formed_handle:
  assumes "resolved s = None" and "resolved (handle s e) = Some r"
  shows "well_formed r"
  using assms
  by (cases e)
     (auto simp: Let_def resolve_def well_formed_def includes_tail
           split: if_splits option.splits)

lemma well_formed_foldl:
  assumes "resolved s = None" and "resolved (foldl handle s evs) = Some r"
  shows "well_formed r"
  using assms
proof (induction evs arbitrary: s)
  case Nil
  then show ?case by simp
next
  case (Cons e evs)
  show ?case
  proof (cases "resolved (handle s e)")
    case None
    with Cons show ?thesis by simp
  next
    case (Some r')
    with Cons.prems(2) have "r = r'"
      by (simp add: resolved_foldl)
    with Some Cons.prems(1) show ?thesis
      by (simp add: well_formed_handle)
  qed
qed

lemma executeProcess_well_formed:
  "executeProcess sp t cwd st evs = Fulfilled r \<Longrightarrow> well_formed r"
  by (auto simp: executeProcess_def run_events_def spawned_def
           split: option.splits intro: well_formed_foldl [rotated])

subsection \<open>The kill escalation\<close>

lemma grace_invariant_handle: "grace_invariant s \<Longrightarrow> grace_invariant (handle s e)"
  by (cases e)
     (auto simp: grace_invariant_def Let_def proc_kill_def resolve_def
           split: if_splits option.splits)

lemma grace_invariant_foldl: "grace_invariant s \<Longrightarrow> grace_invariant (foldl handle s evs)"
  by (induction evs arbitrary: s) (simp_all add: grace_invariant_handle)

text \<open>
  Whatever the runtime delivers and in whatever order, no SIGKILL ever reaches a
  running subprocess: the inner timer tests \<open>proc.killed\<close>, which the delivered SIGTERM
  has already set, so \<open>proc.kill('SIGKILL')\<close> is reached only when the SIGTERM found the
  subprocess gone.
\<close>

lemma sigkill_never_delivered: "(SIGKILL, True) \<notin> set (kill_log (run_events t evs))"
proof -
  have "grace_invariant (spawned t)"
    by (simp add: grace_invariant_def spawned_def)
  then have "grace_invariant (run_events t evs)"
    unfolding run_events_def by (rule grace_invariant_foldl)
  then show ?thesis by (simp add: grace_invariant_def)
qed

text \<open>
  C1. The claim says that after the timeout a SIGTERM is sent and that, if the
  subprocess is still there when the grace window of one second ends, a SIGKILL
  follows. The source attempts this (lines 116 to 126) but guards the SIGKILL with
  \<open>!proc.killed\<close>, which is false as soon as the SIGTERM was sent. In both orders of
  the two timeout timers, a subprocess that survives the SIGTERM is still running
  after the grace timer has fired, no signal but SIGTERM was ever sent, and the
  promise is not resolved.
\<close>

theorem C1_sigkill_never_sent:
  "kill_log (run_events 200 [SpawnTimeoutFires, TimerFires, GraceFires]) = [(SIGTERM, True)] \<and>
   proc_running (run_events 200 [SpawnTimeoutFires, TimerFires, GraceFires]) \<and>
   resolved (run_events 200 [SpawnTimeoutFires, TimerFires, GraceFires]) = None \<and>
   kill_log (run_events 200 [TimerFires, SpawnTimeoutFires, GraceFires]) =
     [(SIGTERM, True), (SIGTERM, True)] \<and>
   proc_running (run_events 200 [TimerFires, SpawnTimeoutFires, GraceFires]) \<and>
   resolved (run_events 200 [TimerFires, SpawnTimeoutFires, GraceFires]) = None"
  by (simp add: run_events_def spawned_def proc_kill_def)

subsection \<open>How a close is classified\<close>


lemma left_alone:
  assumes "list_all output_or_exit pre"
    and "length (var_stdout s @ stdout_of pre) \<le> 1000000"
    and "length (var_stderr s @ stderr_of pre) \<le> 1000000"
  shows "var_stdout (foldl handle s pre) = var_stdout s @ stdout_of pre \<and>
         var_stderr (foldl handle s pre) = var_stderr s @ stderr_of pre \<and>
         var_killed (foldl handle s pre) = var_killed s \<and>
         resolved (foldl handle s pre) = resolved s"
  using assms
proof (induction pre arbitrary: s)
  case Nil
  then show ?case by simp
next
  case (Cons e pre)
  then show ?case
    by (cases e) (simp_all add: Let_def)
qed

lemma nonzero_exit_resolved:
  assumes "on_its_own pre" and "n \<noteq> 0"
  shows "resolved (run_events t (pre @ Close (Some n) # post)) =
           Some \<lparr> success = False, stdout = stdout_of pre, stderr = stderr_of pre,
                  exitCode = n, error = None \<rparr>"
proof -
  from assms(1) have "list_all output_or_exit pre"
    and "length (var_stdout (spawned t) @ stdout_of pre) \<le> 1000000"
    and "length (var_stderr (spawned t) @ stderr_of pre) \<le> 1000000"
    by (simp_all add: on_its_own_def spawned_def)
  from left_alone [OF this] have
    "var_stdout (run_events t pre) = stdout_of pre"
    "var_stderr (run_events t pre) = stderr_of pre"
    "\<not> var_killed (run_events t pre)"
    "resolved (run_events t pre) = None"
    by (simp_all add: run_events_def spawned_def)
  with assms(2) show ?thesis
    by (simp add: run_events_def resolved_foldl Let_def resolve_def)
qed

subsection \<open>When the promise settles\<close>

lemma terminal_resolves: "terminal e \<Longrightarrow> resolved (handle s e) \<noteq> None"
  by (cases e) (simp_all add: Let_def resolve_def split: option.splits)

lemma terminal_settles:
  "list_ex terminal evs \<Longrightarrow> resolved (foldl handle s evs) \<noteq> None"
proof (induction evs arbitrary: s)
  case Nil
  then show ?case by simp
next
  case (Cons e evs)
  show ?case
  proof (cases "terminal e")
    case True
    then have "resolved (handle s e) \<noteq> None" by (rule terminal_resolves)
    then show ?thesis by (simp add: resolved_kept)
  next
    case False
    with Cons.prems have "list_ex terminal evs" by simp
    then show ?thesis by (simp add: Cons.IH)
  qed
qed

subsection \<open>What the callbacks have captured\<close>

lemma var_stdout_proc_kill [simp]: "var_stdout (proc_kill sig s) = var_stdout s"
  by (simp add: proc_kill_def)

lemma var_stderr_proc_kill [simp]: "var_stderr (proc_kill sig s) = var_stderr s"
  by (simp add: proc_kill_def)

lemma var_killed_proc_kill [simp]: "var_killed (proc_kill sig s) = var_killed s"
  by (simp add: proc_kill_def)







lemma flag_kept_handle: "var_killed s \<Longrightarrow> var_killed (handle s e)"
  by (cases e) (simp_all add: Let_def resolve_def split: option.splits)

lemma flag_kept: "var_killed s \<Longrightarrow> var_killed (foldl handle s evs)"
  by (induction evs arbitrary: s) (simp_all add: flag_kept_handle)






section \<open>execute\<close>

lemma execute_cases:
  assumes "execute request w fs = (Fulfilled r, fs')"
  shows "(\<exists>m. r = caught m (clock_end w - clock_start w)) \<or>
         (\<exists>p sp cwd.
            executeProcess sp (effective_timeout request) cwd (spawn_outcome w) (events w) =
              Fulfilled p \<and>
            r = with_time p (clock_end w - clock_start w))"
  using assms
  by (auto simp: execute_def Let_def split: sum.splits option.splits promise.splits)

text \<open>No exception leaves \<open>execute\<close>: its promise is never rejected.\<close>

lemma execute_never_rejects: "fst (execute request w fs) \<noteq> Rejected m"
  by (simp add: execute_def Let_def split: sum.splits option.splits promise.splits)

text \<open>
  A rejected text is answered by the \<open>catch\<close> block before any scope is made: the
  message is both \<open>stderr\<close> and \<open>error\<close>, and the file system is untouched.
\<close>

lemma rejected_code_result:
  assumes "validateCode (code request) = Inl m"
  shows "execute request w fs = (Fulfilled (caught m (clock_end w - clock_start w)), fs)"
  using assms by (simp add: execute_def Let_def)

text \<open>
  \<open>execute\<close> returns a result in every world in which the runtime delivers a \<open>close\<close>
  or an \<open>error\<close> event for the subprocess.
\<close>

lemma execute_settles:
  assumes "list_ex terminal (events w)"
  shows "\<exists>r. fst (execute request w fs) = Fulfilled r"
proof -
  have "resolved (run_events (effective_timeout request) (events w)) \<noteq> None"
    unfolding run_events_def using assms by (rule terminal_settles)
  then show ?thesis
    by (auto simp: execute_def executeProcess_def Let_def
             split: sum.splits option.splits promise.splits)
qed

text \<open>
  A subprocess that exits on its own with a status other than 0 has that status in
  the result of \<open>execute\<close>, with no \<open>error\<close>, when the removal of the scope succeeds.
\<close>

lemma nonzero_exit_passed_through:
  assumes "on_its_own pre" and "n \<noteq> 0"
    and "validateCode (code request) = Inr ()"
    and "mkdtemp_outcome w = Inr tmpDir"
    and "writeFile_outcome w = None"
    and "spawn_outcome w = None"
    and "events w = pre @ Close (Some n) # post"
    and "rm_outcome w = None"
  shows "fst (execute request w fs) =
           Fulfilled \<lparr> success = False, stdout = stdout_of pre, stderr = stderr_of pre,
                       exitCode = n, error = None,
                       executionTime = clock_end w - clock_start w \<rparr>"
  using nonzero_exit_resolved [OF assms(1,2), of "effective_timeout request" post] assms(3-)
  by (simp add: execute_def executeProcess_def Let_def with_time_def)

subsection \<open>Two runs, evaluated\<close>

lemma run_printed_one:
  "execute (request_of (ascii ''print(1)'') None)
           (world [StdoutData (ascii ''1'' @ newline), Exit, Close (Some 0)]) {} =
   (Fulfilled printed_one, {})"
  by (simp add: execute_def request_of_def world_def validate_print executeProcess_def
        run_events_def spawned_def resolve_def with_time_def printed_one_def Let_def)

lemma run_forced:
  "execute (request_of sleeping_script (Some 200)) (world [TimerFires, Exit, Close None]) {} =
   (Fulfilled forced_result, {})"
  by (simp add: execute_def request_of_def world_def validate_sleeping executeProcess_def
        run_events_def spawned_def resolve_def proc_kill_def with_time_def forced_result_def
        Let_def)

subsection \<open>Invariants of every returned result\<close>

text \<open>
  C7. Every result that \<open>execute\<close> returns with \<open>success\<close> true has the exit code 0 and
  no \<open>error\<close> field: \<open>success\<close> is true only in the branch of the \<open>close\<close> callback that
  found the code 0 and the flag \<open>killed\<close> unset, and the \<open>catch\<close> block sets it false.
\<close>

theorem C7_success_invariant:
  assumes "execute request w fs = (Fulfilled r, fs')" and "success r"
  shows "exitCode r = 0 \<and> error r = None"
proof -
  from execute_cases [OF assms(1)] show ?thesis
  proof (elim disjE exE conjE)
    fix m assume "r = caught m (clock_end w - clock_start w)"
    with assms(2) show ?thesis by (simp add: caught_def)
  next
    fix p sp cwd
    assume p: "executeProcess sp (effective_timeout request) cwd (spawn_outcome w) (events w)
                 = Fulfilled p"
      and r: "r = with_time p (clock_end w - clock_start w)"
    from executeProcess_well_formed [OF p] assms(2) r show ?thesis
      by (simp add: well_formed_def with_time_def split: if_splits)
  qed
qed

theorem C7_success_invariant_witness:
  "execute (request_of (ascii ''print(1)'') None)
           (world [StdoutData (ascii ''1'' @ newline), Exit, Close (Some 0)]) {} =
     (Fulfilled printed_one, {}) \<and>
   success printed_one \<and> exitCode printed_one = 0 \<and> error printed_one = None"
proof -
  have s: "success printed_one" by (simp add: printed_one_def)
  from C7_success_invariant [OF run_printed_one s] run_printed_one s
  show ?thesis by simp
qed







subsection \<open>The scope directory\<close>

text \<open>
  C2. The claim says that the scope directory is removed on every path once it was
  created, also when writing the script fails. The source removes it on one path only,
  after \<open>executeProcess\<close> has resolved (line 55); the \<open>catch\<close> block does not remove it.
  When \<open>fs.writeFile\<close> rejects, \<open>execute\<close> returns the error result and the directory
  made by \<open>fs.mkdtemp\<close> is still there.
\<close>

theorem C2_scope_left_behind:
  "execute (request_of (ascii ''print(1)'') None)
           ((world [])\<lparr> writeFile_outcome := Some disk_full \<rparr>) {} =
   (Fulfilled (caught disk_full 250), {scope})"
  by (simp add: execute_def request_of_def world_def validate_print Let_def)

text \<open>
  C3. The claim says that a failure of the removal is swallowed and the outcome of
  the subprocess is returned. In the source the removal is awaited inside the \<open>try\<close>
  block: when \<open>fs.rm\<close> rejects, the \<open>catch\<close> block builds the result, and the outcome
  that \<open>executeProcess\<close> had resolved to is dropped. The script below leaves a
  read-only directory behind, which \<open>fs.rm\<close> cannot empty, prints \<open>1\<close> and exits
  with 0; the result returned is the failure carrying the message of \<open>fs.rm\<close>, with
  an empty \<open>stdout\<close>, and the scope directory is still there.
\<close>

theorem C3_cleanup_failure_replaces_outcome:
  "executeProcess (path_join scope (ascii ''script.py'')) 30000 scope None
       [StdoutData (ascii ''1'' @ newline), Exit, Close (Some 0)] =
     Fulfilled \<lparr> success = True, stdout = ascii ''1'' @ newline, stderr = [], exitCode = 0,
                 error = None \<rparr> \<and>
   execute (request_of locking_script None)
           ((world [StdoutData (ascii ''1'' @ newline), Exit, Close (Some 0)])
              \<lparr> rm_outcome := Some permission_denied \<rparr>) {} =
     (Fulfilled (caught permission_denied 250), {scope}) \<and>
   stdout (caught permission_denied 250) = [] \<and>
   \<not> success (caught permission_denied 250)"
  by (simp add: execute_def request_of_def world_def validate_locking executeProcess_def
        run_events_def spawned_def resolve_def caught_def newline_def Let_def)

subsection \<open>Runs that end by force\<close>

text \<open>
  C6. The claim says that \<open>execute\<close> returns a result for every request. No exception
  leaves it (\<open>execute_never_rejects\<close>) and it returns whenever a \<open>close\<close> or \<open>error\<close> event
  comes (\<open>execute_settles\<close>), but a subprocess that ignores SIGTERM and does not exit
  is never sent the SIGKILL that the source intends for it, so neither event comes:
  in both orders of the two timeout timers, the promise of \<open>execute\<close> stays pending
  for ever.
\<close>

theorem C6_run_never_returns:
  "execute (request_of stubborn_script (Some 200))
           (world [SpawnTimeoutFires, TimerFires]) {} = (Pending, {scope}) \<and>
   execute (request_of stubborn_script (Some 200))
           (world [TimerFires, SpawnTimeoutFires, GraceFires]) {} = (Pending, {scope})"
  by (simp add: execute_def request_of_def world_def validate_stubborn executeProcess_def
        run_events_def spawned_def resolve_def proc_kill_def Let_def
        effective_timeout_def js_or_def config_def DEFAULT_CONFIG_def)

text \<open>
  C8. The claim says that a run ended by the timeout has the exit code \<open>-1\<close> and the
  message \<open>Execution timeout or output limit exceeded\<close>. The source gives the timeout
  to \<open>spawn\<close> as well (line 93), so the runtime arms a timer of its own with the same
  delay, before the executor arms its timer. When the runtime's timer is served first,
  its SIGTERM sets \<open>proc.killed\<close>, the executor's callback then skips the branch that
  sets the flag \<open>killed\<close>, and the \<open>close\<close> callback takes the branch of an ordinary exit
  with the code \<open>null\<close>: the result has the exit code 0 and no \<open>error\<close>. The same run
  with the executor's timer served first has the result the claim describes
  (\<open>run_forced\<close>).
\<close>

theorem C8_timeout_not_reported:
  "execute (request_of sleeping_script (Some 200))
           (world [SpawnTimeoutFires, TimerFires, Exit, Close None]) {} =
   (Fulfilled \<lparr> success = False, stdout = [], stderr = [], exitCode = 0, error = None,
                executionTime = 250 \<rparr>, {})"
  by (simp add: execute_def request_of_def world_def validate_sleeping executeProcess_def
        run_events_def spawned_def resolve_def proc_kill_def with_time_def Let_def
        effective_timeout_def js_or_def config_def DEFAULT_CONFIG_def)

text \<open>
  C9. The claim says that the exit status of a subprocess that ends on its own is
  handed through. The \<open>close\<close> callback does so (\<open>nonzero_exit_resolved\<close>), and so does
  \<open>execute\<close> when the removal of the scope succeeds (\<open>nonzero_exit_passed_through\<close>).
  When \<open>fs.rm\<close> rejects, the \<open>catch\<close> block replaces the result: the script below
  leaves a read-only directory behind, which \<open>fs.rm\<close> cannot empty, and exits with 7;
  the result has the exit code \<open>-1\<close> and an \<open>error\<close>.
\<close>

theorem C9_exit_code_lost:
  "executeProcess (path_join scope (ascii ''script.py'')) 30000 scope None
       [Exit, Close (Some 7)] =
     Fulfilled \<lparr> success = False, stdout = [], stderr = [], exitCode = 7, error = None \<rparr> \<and>
   execute (request_of exit7_script None)
           ((world [Exit, Close (Some 7)])\<lparr> rm_outcome := Some permission_denied \<rparr>) {} =
     (Fulfilled (caught permission_denied 250), {scope}) \<and>
   exitCode (caught permission_denied 250) = - 1 \<and>
   error (caught permission_denied 250) = Some permission_denied"
  by (simp add: execute_def request_of_def world_def validate_exit7 executeProcess_def
        run_events_def spawned_def resolve_def caught_def Let_def)

end
